theory Spec2Isabelle
  imports Main
begin

section \<open>Python values\<close>

text \<open>
  The module is dynamically typed: an optional parameter is \<open>None\<close> or a value, and the
  values that reach the argument lists are strings, integers (an alignment, a version
  code) and booleans (presence flags). Sequences are Python lists of such values.
\<close>

datatype pyval = PNone | PBool bool | PInt int | PStr string

text \<open>Truth value of a scalar, as an \<open>if\<close> or an \<open>and\<close> tests it.\<close>

fun truthy :: "pyval \<Rightarrow> bool" where
  "truthy PNone = False"
| "truthy (PBool b) = b"
| "truthy (PInt i) = (i \<noteq> 0)"
| "truthy (PStr s) = (s \<noteq> [])"

text \<open>Decimal rendering of an integer, for \<open>"%s" % n\<close>.\<close>

fun digits10 :: "nat \<Rightarrow> string" where
  "digits10 n =
     (if n < 10 then [char_of (48 + n)]
      else digits10 (n div 10) @ [char_of (48 + n mod 10)])"

declare digits10.simps [simp del]

definition str_int :: "int \<Rightarrow> string" where
  "str_int i = (if i < 0 then CHR ''-'' # digits10 (nat (- i)) else digits10 (nat i))"

text \<open>\<open>"%s" % v\<close> for a scalar \<open>v\<close>: \<open>None\<close> is rendered as the text \<open>None\<close>.\<close>

fun py_str :: "pyval \<Rightarrow> string" where
  "py_str PNone = ''None''"
| "py_str (PBool b) = (if b then ''True'' else ''False'')"
| "py_str (PInt i) = str_int i"
| "py_str (PStr s) = s"

section \<open>Errors and results\<close>

text \<open>The fields of \<open>ProgramFailedError\<close>, under the names the class gives them.\<close>

record failure =
  cmdline :: string
  returncode :: int
  stdout :: "string option"
  stderr :: "string option"

datatype error =
    TypeError
  | AttributeError
  | OSError
  | ProgramFailedError failure

text \<open>
  What a call does: it returns the command line, raises, or never returns (the call
  waits for its child without a timeout).
\<close>

datatype outcome = Returns string | Raises error | Never_returns

text \<open>\<open>sep.join(xs)\<close>: every item has to be a string, or the join raises \<open>TypeError\<close>.\<close>

fun str_items :: "pyval list \<Rightarrow> string list option" where
  "str_items [] = Some []"
| "str_items (PStr s # xs) =
     (case str_items xs of None \<Rightarrow> None | Some ss \<Rightarrow> Some (s # ss))"
| "str_items (_ # xs) = None"

fun join :: "string \<Rightarrow> string list \<Rightarrow> string" where
  "join sep [] = []"
| "join sep [s] = s"
| "join sep (s # t # ss) = s @ sep @ join sep (t # ss)"

definition py_join :: "string \<Rightarrow> pyval list \<Rightarrow> error + string" where
  "py_join sep xs =
     (case str_items xs of None \<Rightarrow> Inl TypeError | Some ss \<Rightarrow> Inr (join sep ss))"

text \<open>
  \<open>ProgramFailedError.__init__(cmdline, returncode, stdout=None, stderr=None)\<close>:
  a command line given as a sequence is joined with spaces.
\<close>

datatype cmdline_arg = Cmd_str string | Cmd_seq "string list"

definition ProgramFailedError_init ::
    "cmdline_arg \<Rightarrow> int \<Rightarrow> string option \<Rightarrow> string option \<Rightarrow> failure" where
  "ProgramFailedError_init cmdline_in returncode_in stdout_in stderr_in =
     \<lparr>cmdline = (case cmdline_in of Cmd_seq xs \<Rightarrow> join '' '' xs | Cmd_str s \<Rightarrow> s),
      returncode = returncode_in,
      stdout = stdout_in,
      stderr = stderr_in\<rparr>"

section \<open>The process environment\<close>

text \<open>
  Dictionaries are objects: \<open>os.environ\<close> lives at an address of a store, \<open>copy\<close>
  allocates a new object and \<open>update\<close> writes into the object it is called on. The
  world also holds \<open>sys.platform\<close>, the calls of \<open>subprocess.Popen\<close> made so far and
  what the child of such a call does.
\<close>

type_synonym dict = "string \<rightharpoonup> string"
type_synonym addr = nat

record launch =
  argv :: "pyval list"
  use_shell :: bool
  child_env :: dict

datatype child_run =
    Exited int string string   \<comment> \<open>exit code, bytes written to stdout, bytes written to stderr\<close>
  | Never_exits
  | Launch_failed               \<comment> \<open>\<open>Popen\<close> itself raises \<open>OSError\<close>\<close>

record world =
  sys_platform :: string
  heap :: "addr \<Rightarrow> dict"
  next_free :: addr
  os_environ :: addr
  popen_calls :: "launch list"
  run_child :: "launch \<Rightarrow> child_run"

definition dict_copy :: "addr \<Rightarrow> world \<Rightarrow> addr \<times> world" where
  "dict_copy a w =
     (next_free w,
      w\<lparr>heap := (heap w)(next_free w := heap w a), next_free := Suc (next_free w)\<rparr>)"

definition dict_update :: "addr \<Rightarrow> dict \<Rightarrow> world \<Rightarrow> world" where
  "dict_update a d w = w\<lparr>heap := (heap w)(a := heap w a ++ d)\<rparr>"

text \<open>\<open>env or {}\<close>: \<open>None\<close> (and the empty dictionary) give the empty dictionary.\<close>

definition or_empty :: "dict option \<Rightarrow> dict" where
  "or_empty env = (case env of None \<Rightarrow> Map.empty | Some d \<Rightarrow> d)"

section \<open>Program\<close>

record framework =
  sdk_dir :: string

record program =
  executable :: string
  framework :: "framework option"

text \<open>\<open>Program.__init__(executable, framework=None)\<close>.\<close>

definition Program_init :: "string \<Rightarrow> framework option \<Rightarrow> program" where
  "Program_init executable_in framework_in =
     \<lparr>executable = executable_in, framework = framework_in\<rparr>"

text \<open>
  \<open>Program.extend_args(args, new, condition=True)\<close>. The list \<open>args\<close> is extended in
  place; the model returns the list after the call.
\<close>

definition extend_args :: "pyval list \<Rightarrow> pyval list \<Rightarrow> bool \<Rightarrow> pyval list" where
  "extend_args args new condition =
     (if \<not> PNone \<in> set new \<and> condition then args @ new else args)"

text \<open>\<open>Program.__call__(arguments, env=None, shell=False)\<close>.\<close>

definition Program_call ::
    "program \<Rightarrow> pyval list \<Rightarrow> dict option \<Rightarrow> bool \<Rightarrow> world \<Rightarrow> outcome \<times> world" where
  "Program_call self arguments env shell w =
     (let cmdline = PStr (executable self) # arguments;
          cmdline = (if shell \<and> \<not> sys_platform w = ''win32''
                     then PStr ''/bin/sh'' # cmdline else cmdline)
      in case py_join '' '' cmdline of
           Inl e \<Rightarrow> (Raises e, w)
         | Inr cmdline_str \<Rightarrow>
             (let (custom_env, w) = dict_copy (os_environ w) w;
                  w = dict_update custom_env (or_empty env) w;
                  process = \<lparr>argv = cmdline,
                             use_shell = (if sys_platform w = ''win32'' then True else False),
                             child_env = heap w custom_env\<rparr>;
                  w = w\<lparr>popen_calls := popen_calls w @ [process]\<rparr>
              in case run_child w process of
                   Launch_failed \<Rightarrow> (Raises OSError, w)
                 | Never_exits \<Rightarrow> (Never_returns, w)
                 | Exited code out err \<Rightarrow>
                     if code \<noteq> 0
                     then (Raises (ProgramFailedError
                             (ProgramFailedError_init (Cmd_str cmdline_str) code
                                (Some err) (Some out))), w)
                     else (Returns cmdline_str, w)))"

section \<open>Tool adapters\<close>

text \<open>
  Each adapter builds its argument list (\<open>X_args\<close>) and hands it to \<open>Program.__call__\<close>
  (\<open>X_call\<close>). Parameters stand in the order of the Python signature; an optional
  parameter left out is \<open>PNone\<close>, or \<open>[]\<close> for a list.
\<close>

definition Aapt_args ::
    "pyval \<Rightarrow> pyval \<Rightarrow> pyval \<Rightarrow> pyval \<Rightarrow> pyval list \<Rightarrow> pyval \<Rightarrow> pyval \<Rightarrow> pyval \<Rightarrow> pyval \<Rightarrow>
     pyval \<Rightarrow> pyval \<Rightarrow> pyval \<Rightarrow> pyval \<Rightarrow> pyval list \<Rightarrow> pyval list" where
  "Aapt_args command manifest resource_dir asset_dir include apk_output r_output
       configurations rename_manifest_package overwrite_version_code
       overwrite_version_name make_dirs overwrite extra_args =
     (let args = [command];
          args = extend_args args [PStr ''-m''] (truthy make_dirs);
          args = extend_args args [PStr ''-M'', manifest] True;
          args = extend_args args [PStr ''-S'', resource_dir] True;
          args = extend_args args [PStr ''-A'', asset_dir] True;
          args = extend_args args [PStr ''-c'', configurations] True;
          args = (if truthy overwrite_version_code
                  then extend_args args
                         [PStr ''--version-code'', PStr (py_str overwrite_version_code)] True
                  else args);
          args = extend_args args [PStr ''--version-code'', overwrite_version_name] True;
          args = extend_args args
                   [PStr ''--rename-manifest-package'', rename_manifest_package] True;
          args = foldl (\<lambda>args item. extend_args args [PStr ''-I'', item] True) args include;
          args = extend_args args [PStr ''-F'', apk_output] True;
          args = extend_args args [PStr ''-J'', r_output] True;
          args = extend_args args [PStr ''-f''] (truthy overwrite);
          args = extend_args args extra_args True
      in args)"

definition Aapt_call ::
    "program \<Rightarrow> pyval \<Rightarrow> pyval \<Rightarrow> pyval \<Rightarrow> pyval \<Rightarrow> pyval list \<Rightarrow> pyval \<Rightarrow> pyval \<Rightarrow> pyval \<Rightarrow>
     pyval \<Rightarrow> pyval \<Rightarrow> pyval \<Rightarrow> pyval \<Rightarrow> pyval \<Rightarrow> pyval list \<Rightarrow> world \<Rightarrow> outcome \<times> world" where
  "Aapt_call self command manifest resource_dir asset_dir include apk_output r_output
       configurations rename_manifest_package overwrite_version_code
       overwrite_version_name make_dirs overwrite extra_args w =
     Program_call self
       (Aapt_args command manifest resource_dir asset_dir include apk_output r_output
          configurations rename_manifest_package overwrite_version_code
          overwrite_version_name make_dirs overwrite extra_args)
       None False w"

definition Aidl_args :: "pyval \<Rightarrow> pyval \<Rightarrow> pyval \<Rightarrow> pyval \<Rightarrow> pyval list" where
  "Aidl_args aidl_file preprocessed search_path output_folder =
     (let args = [];
          args = extend_args args [PStr (''-p'' @ py_str preprocessed)] (truthy preprocessed);
          args = extend_args args [PStr (''-I'' @ py_str search_path)] (truthy search_path);
          args = extend_args args [PStr (''-o'' @ py_str output_folder)] (truthy output_folder);
          args = extend_args args [aidl_file] True
      in args)"

definition Aidl_call ::
    "program \<Rightarrow> pyval \<Rightarrow> pyval \<Rightarrow> pyval \<Rightarrow> pyval \<Rightarrow> world \<Rightarrow> outcome \<times> world" where
  "Aidl_call self aidl_file preprocessed search_path output_folder w =
     Program_call self (Aidl_args aidl_file preprocessed search_path output_folder) None False w"

definition LlvmRs_args :: "pyval \<Rightarrow> pyval \<Rightarrow> pyval list \<Rightarrow> pyval list \<Rightarrow> pyval list" where
  "LlvmRs_args resource_dir resource_gen_dir source_files include_dirs =
     (let args = [];
          args = foldl (\<lambda>args inc. extend_args args [PStr ''-I'', inc] True) args include_dirs;
          args = extend_args args [PStr ''-o'', resource_dir] True;
          args = extend_args args [PStr ''-java-reflection-path-base'', resource_gen_dir] True;
          args = foldl (\<lambda>args filename. extend_args args [filename] True) args source_files
      in args)"

definition LlvmRs_call ::
    "program \<Rightarrow> pyval \<Rightarrow> pyval \<Rightarrow> pyval list \<Rightarrow> pyval list \<Rightarrow> world \<Rightarrow> outcome \<times> world" where
  "LlvmRs_call self resource_dir resource_gen_dir source_files include_dirs w =
     Program_call self (LlvmRs_args resource_dir resource_gen_dir source_files include_dirs)
       None False w"

definition NdkBuild_args :: "pyval \<Rightarrow> pyval list" where
  "NdkBuild_args project_path =
     (let args = [];
          args = extend_args args [PStr ''-C'', project_path] True
      in args)"

definition NdkBuild_call :: "program \<Rightarrow> pyval \<Rightarrow> world \<Rightarrow> outcome \<times> world" where
  "NdkBuild_call self project_path w =
     Program_call self (NdkBuild_args project_path) None False w"

definition NdkClean_args :: "pyval \<Rightarrow> pyval list" where
  "NdkClean_args project_path =
     (let args = [];
          args = extend_args args [PStr ''clean''] True;
          args = extend_args args [PStr ''-C'', project_path] True
      in args)"

definition NdkClean_call :: "program \<Rightarrow> pyval \<Rightarrow> world \<Rightarrow> outcome \<times> world" where
  "NdkClean_call self project_path w =
     Program_call self (NdkClean_args project_path) None False w"

text \<open>
  \<open>JavaC\<close>: the class path is joined before \<open>extend_args\<close> is called, so a class path
  holding a value that is no string raises \<open>TypeError\<close>. The condition of the group is
  the list itself: an empty list is false.
\<close>

definition JavaC_args ::
    "pyval list \<Rightarrow> pyval \<Rightarrow> pyval \<Rightarrow> pyval \<Rightarrow> pyval list \<Rightarrow> pyval \<Rightarrow> pyval \<Rightarrow>
     error + pyval list" where
  "JavaC_args files destdir encoding target classpath bootclasspath debug =
     (let args = [];
          args = extend_args args [PStr ''-encoding'', encoding] True;
          args = extend_args args [PStr ''-target'', target] True;
          args = extend_args args [PStr ''-source'', target] True;
          args = extend_args args [PStr ''-d'', destdir] True
      in case py_join '':'' classpath of
           Inl e \<Rightarrow> Inl e
         | Inr joined \<Rightarrow>
             (let args = extend_args args [PStr ''-classpath'', PStr joined] (classpath \<noteq> []);
                  args = extend_args args [PStr ''-bootclasspath'', bootclasspath] True;
                  args = args @ [if truthy debug then PStr ''-g'' else PStr ''-g:none''];
                  args = args @ files
              in Inr args))"

definition JavaC_call ::
    "program \<Rightarrow> pyval list \<Rightarrow> pyval \<Rightarrow> pyval \<Rightarrow> pyval \<Rightarrow> pyval list \<Rightarrow> pyval \<Rightarrow> pyval \<Rightarrow>
     world \<Rightarrow> outcome \<times> world" where
  "JavaC_call self files destdir encoding target classpath bootclasspath debug w =
     (case JavaC_args files destdir encoding target classpath bootclasspath debug of
        Inl e \<Rightarrow> (Raises e, w)
      | Inr args \<Rightarrow> Program_call self args None False w)"

definition Dx_args :: "pyval list \<Rightarrow> pyval \<Rightarrow> pyval list" where
  "Dx_args files output =
     (let args = [PStr ''--dex''];
          args = extend_args args [PStr (''--output='' @ py_str output)] True;
          args = args @ files
      in args)"

definition Dx_call :: "program \<Rightarrow> pyval list \<Rightarrow> pyval \<Rightarrow> world \<Rightarrow> outcome \<times> world" where
  "Dx_call self files output w = Program_call self (Dx_args files output) None False w"

definition ApkBuilder_args ::
    "pyval \<Rightarrow> pyval \<Rightarrow> pyval list \<Rightarrow> pyval list \<Rightarrow> pyval list \<Rightarrow> pyval list \<Rightarrow> pyval list" where
  "ApkBuilder_args outputfile dex zips source_dirs jar_paths native_dirs =
     (let args = [outputfile];
          args = args @ [PStr ''-u''];
          args = extend_args args [PStr ''-f'', dex] True;
          args = foldl (\<lambda>args zip. args @ [PStr ''-z'', zip]) args zips;
          args = foldl (\<lambda>args source_dir. args @ [PStr ''-rf'', source_dir]) args source_dirs;
          args = foldl (\<lambda>args item. args @ [PStr ''-rj'', item]) args jar_paths;
          args = foldl (\<lambda>args item. args @ [PStr ''-nf'', item]) args native_dirs
      in args)"

text \<open>
  The overlay \<open>{'ANDROID_SDK_DIR': self.framework.sdk_dir}\<close> is an argument of the call
  to \<open>Program.__call__\<close>, so it is evaluated before that call: with no framework the
  attribute access on \<open>None\<close> raises.
\<close>

definition ApkBuilder_call ::
    "program \<Rightarrow> pyval \<Rightarrow> pyval \<Rightarrow> pyval list \<Rightarrow> pyval list \<Rightarrow> pyval list \<Rightarrow> pyval list \<Rightarrow>
     world \<Rightarrow> outcome \<times> world" where
  "ApkBuilder_call self outputfile dex zips source_dirs jar_paths native_dirs w =
     (let args = ApkBuilder_args outputfile dex zips source_dirs jar_paths native_dirs
      in case framework self of
           None \<Rightarrow> (Raises AttributeError, w)
         | Some fw \<Rightarrow>
             Program_call self args (Some [''ANDROID_SDK_DIR'' \<mapsto> sdk_dir fw]) True w)"

definition JarSigner_args :: "pyval \<Rightarrow> pyval \<Rightarrow> pyval \<Rightarrow> pyval \<Rightarrow> pyval list" where
  "JarSigner_args jarfile keystore alias password =
     (let args = [];
          args = args @ [PStr ''-keystore'', keystore];
          args = args @ [PStr ''-storepass'', password];
          args = args @ [PStr ''-digestalg'', PStr ''SHA1''];
          args = args @ [PStr ''-sigalg'', PStr ''MD5withRSA''];
          args = args @ [jarfile];
          args = args @ [alias]
      in args)"

definition JarSigner_call ::
    "program \<Rightarrow> pyval \<Rightarrow> pyval \<Rightarrow> pyval \<Rightarrow> pyval \<Rightarrow> world \<Rightarrow> outcome \<times> world" where
  "JarSigner_call self jarfile keystore alias password w =
     Program_call self (JarSigner_args jarfile keystore alias password) None False w"

definition ZipAlign_args :: "pyval \<Rightarrow> pyval \<Rightarrow> pyval \<Rightarrow> pyval \<Rightarrow> pyval list" where
  "ZipAlign_args infile outfile align force =
     (let args = [];
          args = extend_args args [PStr ''-f''] (truthy force);
          args = args @ [PStr (py_str align)];
          args = args @ [infile];
          args = args @ [outfile]
      in args)"

definition ZipAlign_call ::
    "program \<Rightarrow> pyval \<Rightarrow> pyval \<Rightarrow> pyval \<Rightarrow> pyval \<Rightarrow> world \<Rightarrow> outcome \<times> world" where
  "ZipAlign_call self infile outfile align force w =
     Program_call self (ZipAlign_args infile outfile align force) None False w"

section \<open>Reference notions and sample worlds\<close>

text \<open>
  The platform's path separator, Python's \<open>os.pathsep\<close>, on the platforms the module
  tells apart: \<open>;\<close> on Windows (\<open>sys.platform == "win32"\<close>) and \<open>:\<close> elsewhere.
  The module itself never reads it.
\<close>

definition platform_path_separator :: "string \<Rightarrow> string" where
  "platform_path_separator plat = (if plat = ''win32'' then '';'' else '':'')"

text \<open>
  Two worlds to run the calls in: a POSIX one and a Windows one, each with \<open>os.environ\<close>
  at address 0, no call of \<open>Popen\<close> made yet, and the given behaviour of children.
\<close>

definition posix_world :: "(launch \<Rightarrow> child_run) \<Rightarrow> world" where
  "posix_world children =
     \<lparr>sys_platform = ''linux2'',
      heap = (\<lambda>_. Map.empty)(0 := [''PATH'' \<mapsto> ''/usr/bin'', ''ANDROID_SDK_DIR'' \<mapsto> ''/old'']),
      next_free = 1,
      os_environ = 0,
      popen_calls = [],
      run_child = children\<rparr>"

definition win32_world :: "(launch \<Rightarrow> child_run) \<Rightarrow> world" where
  "win32_world children =
     \<lparr>sys_platform = ''win32'',
      heap = (\<lambda>_. Map.empty)(0 := [''PATH'' \<mapsto> ''C:/bin'']),
      next_free = 1,
      os_environ = 0,
      popen_calls = [],
      run_child = children\<rparr>"

section \<open>Auxiliary facts\<close>

lemma str_items_map_PStr [simp]: "str_items (map PStr ss) = Some ss"
  by (induction ss) simp_all

lemma str_items_Some: "str_items xs = Some ss \<Longrightarrow> xs = map PStr ss"
  by (induction xs arbitrary: ss rule: str_items.induct) (auto split: option.splits)

lemma join_Cons: "join sep (s # ss) = (if ss = [] then s else s @ sep @ join sep ss)"
  by (cases ss) simp_all

section \<open>The conditional argument builder\<close>

text \<open>
  Claim C3. \<open>extend_args\<close> appends the whole group \<open>new\<close> to \<open>args\<close> exactly when
  no fragment of the group is \<open>None\<close> and the condition holds, and leaves \<open>args\<close> as it
  is otherwise. It only appends (the old list stays a prefix), and it is a total function
  of lists of scalars: comparing with \<open>None\<close> and extending a list cannot raise. A flag
  with a \<open>None\<close> companion is skipped whole: a two-fragment group comes out complete or
  not at all.
\<close>

theorem extend_args_atomic_group:
  "extend_args args new condition =
     (if (\<forall>f \<in> set new. f \<noteq> PNone) \<and> condition then args @ new else args)
   \<and> (PNone \<in> set new \<longrightarrow> extend_args args new condition = args)
   \<and> (\<not> condition \<longrightarrow> extend_args args new condition = args)
   \<and> take (length args) (extend_args args new condition) = args
   \<and> (extend_args args [flag, v] condition = args
        \<or> (v \<noteq> PNone \<and> flag \<noteq> PNone \<and> extend_args args [flag, v] condition = args @ [flag, v]))
   \<and> extend_args args [flag, PNone] condition = args"
proof -
  have scan: "(\<not> PNone \<in> set new) = (\<forall>f \<in> set new. f \<noteq> PNone)"
    by auto
  have whole: "extend_args args new condition =
     (if (\<forall>f \<in> set new. f \<noteq> PNone) \<and> condition then args @ new else args)"
    unfolding extend_args_def scan ..
  have absent: "extend_args args new condition = args" if "PNone \<in> set new"
    using that by (simp add: extend_args_def)
  have guard: "extend_args args new condition = args" if "\<not> condition"
    using that by (simp add: extend_args_def)
  have grows: "take (length args) (extend_args args new condition) = args"
    by (simp add: extend_args_def)
  have pair: "extend_args args [flag, v] condition = args
        \<or> (v \<noteq> PNone \<and> flag \<noteq> PNone \<and> extend_args args [flag, v] condition = args @ [flag, v])"
    by (cases "condition \<and> v \<noteq> PNone \<and> flag \<noteq> PNone") (auto simp: extend_args_def)
  have bare: "extend_args args [flag, PNone] condition = args"
    by (simp add: extend_args_def)
  from whole absent guard grows pair bare show ?thesis
    by blast
qed

theorem extend_args_atomic_group_witness:
  "extend_args [PStr ''package''] [PStr ''-M'', PNone] True = [PStr ''package'']
   \<and> extend_args [PStr ''package''] [PStr ''-M'', PStr ''m.xml''] True
       = [PStr ''package'', PStr ''-M'', PStr ''m.xml'']
   \<and> extend_args [PStr ''package''] [PStr ''-m''] False = [PStr ''package'']"
  using extend_args_atomic_group [of "[PStr ''package'']" "[PStr ''-M'', PNone]" True]
        extend_args_atomic_group [of "[PStr ''package'']" "[PStr ''-M'', PStr ''m.xml'']" True]
        extend_args_atomic_group [of "[PStr ''package'']" "[PStr ''-m'']" False]
  by simp

section \<open>The invoker\<close>

lemma Program_call_unfold:
  "Program_call self arguments env shell w =
     (let cmd = (if shell \<and> sys_platform w \<noteq> ''win32'' then [PStr ''/bin/sh''] else [])
                  @ PStr (executable self) # arguments
      in case str_items cmd of
           None \<Rightarrow> (Raises TypeError, w)
         | Some cs \<Rightarrow>
             (let p = \<lparr>argv = cmd, use_shell = (sys_platform w = ''win32''),
                       child_env = heap w (os_environ w) ++ or_empty env\<rparr>
              in (case run_child w p of
                    Launch_failed \<Rightarrow> Raises OSError
                  | Never_exits \<Rightarrow> Never_returns
                  | Exited code out err \<Rightarrow>
                      if code \<noteq> 0
                      then Raises (ProgramFailedError
                             \<lparr>cmdline = join '' '' cs, returncode = code,
                              stdout = Some err, stderr = Some out\<rparr>)
                      else Returns (join '' '' cs),
                  w\<lparr>heap := (heap w)(next_free w := heap w (os_environ w) ++ or_empty env),
                    next_free := Suc (next_free w),
                    popen_calls := popen_calls w @ [p]\<rparr>)))"
  by (simp add: Program_call_def Let_def dict_copy_def dict_update_def py_join_def
        ProgramFailedError_init_def
      split: option.splits child_run.splits)

text \<open>
  Claim C1. A call of \<open>Program.__call__\<close> raises \<open>ProgramFailedError\<close> if and only if
  it started a child and that child exited with a code other than 0. The failure carries
  the joined command line of the child and the exit code. With exit code 0 the call
  returns the joined command line, a value that holds nothing of what the child wrote.
  A call whose arguments are all strings does start a child.
\<close>

theorem Program_call_failure_iff_nonzero_exit:
  assumes "Program_call self arguments env shell w = (r, w')"
  shows "((\<exists>f. r = Raises (ProgramFailedError f)) \<longleftrightarrow>
            (\<exists>p code out err. popen_calls w' = popen_calls w @ [p]
               \<and> run_child w p = Exited code out err \<and> code \<noteq> 0))
       \<and> (\<forall>p code out err.
            popen_calls w' = popen_calls w @ [p] \<and> run_child w p = Exited code out err \<longrightarrow>
              (\<exists>s. py_join '' '' (argv p) = Inr s
                 \<and> (if code \<noteq> 0
                     then \<exists>f. r = Raises (ProgramFailedError f) \<and> cmdline f = s \<and> returncode f = code
                     else r = Returns s)))
       \<and> (str_items arguments \<noteq> None \<longrightarrow> (\<exists>p. popen_calls w' = popen_calls w @ [p]))"
proof (cases "str_items ((if shell \<and> sys_platform w \<noteq> ''win32'' then [PStr ''/bin/sh''] else [])
                  @ PStr (executable self) # arguments)")
  case None
  then have "r = Raises TypeError" "w' = w" "str_items arguments = None"
    using assms by (auto simp: Program_call_unfold Let_def split: if_splits option.splits)
  then show ?thesis by simp
next
  case (Some cs)
  define p0 where "p0 = \<lparr>argv = (if shell \<and> sys_platform w \<noteq> ''win32'' then [PStr ''/bin/sh''] else [])
                  @ PStr (executable self) # arguments, use_shell = (sys_platform w = ''win32''),
                       child_env = heap w (os_environ w) ++ or_empty env\<rparr>"
  have calls: "popen_calls w' = popen_calls w @ [p0]"
    using assms Some by (auto simp: Program_call_unfold Let_def p0_def)
  have joined: "py_join '' '' (argv p0) = Inr (join '' '' cs)"
    using Some by (simp add: py_join_def p0_def)
  have res: "r = (case run_child w p0 of
                    Launch_failed \<Rightarrow> Raises OSError
                  | Never_exits \<Rightarrow> Never_returns
                  | Exited code out err \<Rightarrow>
                      if code \<noteq> 0
                      then Raises (ProgramFailedError
                             \<lparr>cmdline = join '' '' cs, returncode = code,
                              stdout = Some err, stderr = Some out\<rparr>)
                      else Returns (join '' '' cs))"
    using assms Some by (auto simp: Program_call_unfold Let_def p0_def)
  show ?thesis
    unfolding calls res using joined
    by (cases "run_child w p0") auto
qed

theorem Program_call_failure_iff_nonzero_exit_witness:
  "\<exists>f. fst (Program_call \<lparr>executable = ''aapt'', framework = None\<rparr> [PStr ''package''] None False
              (posix_world (\<lambda>_. Exited 7 ''ok'' ''boom'')))
         = Raises (ProgramFailedError f) \<and> returncode f = 7"
proof -
  let ?w = "posix_world (\<lambda>_. Exited 7 ''ok'' ''boom'')"
  let ?c = "Program_call \<lparr>executable = ''aapt'', framework = None\<rparr> [PStr ''package''] None False ?w"
  have call: "?c = (fst ?c, snd ?c)" by simp
  note inst = Program_call_failure_iff_nonzero_exit [OF call]
  have "str_items [PStr ''package''] \<noteq> None" by simp
  with inst obtain p where calls: "popen_calls (snd ?c) = popen_calls ?w @ [p]" by blast
  have run: "run_child ?w p = Exited 7 ''ok'' ''boom''" by (simp add: posix_world_def)
  from inst calls run show ?thesis by fastforce
qed

text \<open>
  Claim C2. When the child exits with a code other than 0, the field \<open>stdout\<close> of the
  failure holds the bytes the child wrote to stderr and the field \<open>stderr\<close> holds the
  bytes it wrote to stdout.
\<close>

theorem Program_call_failure_streams_swapped:
  assumes "Program_call self arguments env shell w = (r, w')"
      and "popen_calls w' = popen_calls w @ [p]"
      and "run_child w p = Exited code out err"
      and "code \<noteq> 0"
  shows "\<exists>f. r = Raises (ProgramFailedError f) \<and> stdout f = Some err \<and> stderr f = Some out"
proof (cases "str_items ((if shell \<and> sys_platform w \<noteq> ''win32'' then [PStr ''/bin/sh''] else [])
                  @ PStr (executable self) # arguments)")
  case None
  then have "w' = w"
    using assms(1) by (auto simp: Program_call_unfold Let_def)
  with assms(2) show ?thesis by simp
next
  case (Some cs)
  then show ?thesis
    using assms by (auto simp: Program_call_unfold Let_def)
qed

theorem Program_call_failure_streams_swapped_witness:
  "\<exists>f. fst (Program_call \<lparr>executable = ''dx'', framework = None\<rparr> [PStr ''--dex''] None False
              (posix_world (\<lambda>_. Exited 7 ''ok'' ''boom'')))
         = Raises (ProgramFailedError f) \<and> stdout f = Some ''boom'' \<and> stderr f = Some ''ok''"
proof -
  let ?w = "posix_world (\<lambda>_. Exited 7 ''ok'' ''boom'')"
  let ?c = "Program_call \<lparr>executable = ''dx'', framework = None\<rparr> [PStr ''--dex''] None False ?w"
  let ?p = "\<lparr>argv = [PStr ''dx'', PStr ''--dex''], use_shell = False,
             child_env = heap ?w (os_environ ?w) ++ or_empty None\<rparr>"
  have call: "?c = (fst ?c, snd ?c)" by simp
  have calls: "popen_calls (snd ?c) = popen_calls ?w @ [?p]"
    by (simp add: Program_call_unfold posix_world_def)
  have run: "run_child ?w ?p = Exited 7 ''ok'' ''boom''" by (simp add: posix_world_def)
  have code: "(7::int) \<noteq> 0" by simp
  from Program_call_failure_streams_swapped [OF call calls run code] show ?thesis .
qed

text \<open>
  Claim C5, as amended. A call whose arguments are all strings starts a child, and when
  that child exits with code 0, the string returned is the argument vector of the child
  joined by single spaces: the executable followed by the fragments in their order (the
  executable alone, with no trailing space, when there are no fragments), and in
  shell-wrapper mode on a platform other than \<open>win32\<close> all of that preceded by
  \<open>/bin/sh\<close> and a space.
\<close>

theorem Program_call_returns_launched_cmdline:
  assumes "Program_call self arguments env shell w = (r, w')"
  shows "(str_items arguments \<noteq> None \<longrightarrow> (\<exists>p. popen_calls w' = popen_calls w @ [p]))
       \<and> (\<forall>p out err.
            popen_calls w' = popen_calls w @ [p] \<and> run_child w p = Exited 0 out err \<longrightarrow>
            (\<exists>ss. arguments = map PStr ss
               \<and> argv p = map PStr ((if shell \<and> sys_platform w \<noteq> ''win32'' then [''/bin/sh''] else [])
                                       @ executable self # ss)
               \<and> r = Returns (join '' '' ((if shell \<and> sys_platform w \<noteq> ''win32'' then [''/bin/sh''] else [])
                                              @ executable self # ss))
               \<and> (\<not> (shell \<and> sys_platform w \<noteq> ''win32'') \<longrightarrow>
                     r = Returns (if ss = [] then executable self
                                  else executable self @ '' '' @ join '' '' ss))
               \<and> (shell \<and> sys_platform w \<noteq> ''win32'' \<longrightarrow>
                     r = Returns (''/bin/sh'' @ '' '' @ executable self
                                    @ (if ss = [] then [] else '' '' @ join '' '' ss)))))"
proof (cases "str_items ((if shell \<and> sys_platform w \<noteq> ''win32'' then [PStr ''/bin/sh''] else [])
                  @ PStr (executable self) # arguments)")
  case None
  then have "w' = w" "str_items arguments = None"
    using assms by (auto simp: Program_call_unfold Let_def split: if_splits option.splits)
  then show ?thesis by simp
next
  case (Some cs)
  from str_items_Some [OF Some] obtain ss where ss: "arguments = map PStr ss"
    by (cases "shell \<and> sys_platform w \<noteq> ''win32''") (auto simp: map_eq_Cons_conv Cons_eq_map_conv)
  have cs: "cs = (if shell \<and> sys_platform w \<noteq> ''win32'' then [''/bin/sh''] else []) @ executable self # ss"
    using Some unfolding ss by (auto split: if_splits)
  define p0 where "p0 = \<lparr>argv = (if shell \<and> sys_platform w \<noteq> ''win32'' then [PStr ''/bin/sh''] else [])
                  @ PStr (executable self) # arguments, use_shell = (sys_platform w = ''win32''),
                       child_env = heap w (os_environ w) ++ or_empty env\<rparr>"
  have calls: "popen_calls w' = popen_calls w @ [p0]"
    using assms Some by (auto simp: Program_call_unfold Let_def p0_def)
  have started: "\<exists>p. popen_calls w' = popen_calls w @ [p]"
    using calls by blast
  have returned: "r = Returns (join '' '' cs)" if "run_child w p0 = Exited 0 out err" for out err
    using assms Some that by (auto simp: Program_call_unfold Let_def p0_def)
  have vector: "argv p0 = map PStr cs"
    unfolding cs ss p0_def by simp
  have "\<exists>ss. arguments = map PStr ss
               \<and> argv p = map PStr ((if shell \<and> sys_platform w \<noteq> ''win32'' then [''/bin/sh''] else [])
                                       @ executable self # ss)
               \<and> r = Returns (join '' '' ((if shell \<and> sys_platform w \<noteq> ''win32'' then [''/bin/sh''] else [])
                                              @ executable self # ss))
               \<and> (\<not> (shell \<and> sys_platform w \<noteq> ''win32'') \<longrightarrow>
                     r = Returns (if ss = [] then executable self
                                  else executable self @ '' '' @ join '' '' ss))
               \<and> (shell \<and> sys_platform w \<noteq> ''win32'' \<longrightarrow>
                     r = Returns (''/bin/sh'' @ '' '' @ executable self
                                    @ (if ss = [] then [] else '' '' @ join '' '' ss)))"
    if launched: "popen_calls w' = popen_calls w @ [p]" and exit0: "run_child w p = Exited 0 out err"
    for p out err
  proof -
    from launched calls have p: "p = p0" by simp
    from returned [of out err] exit0 p have r: "r = Returns (join '' '' cs)" by simp
    show ?thesis
      by (rule exI [of _ ss]) (use r vector p ss cs in \<open>auto simp: join_Cons\<close>)
  qed
  with started show ?thesis by blast
qed

theorem Program_call_returns_launched_cmdline_witness:
  "fst (Program_call \<lparr>executable = ''apkbuilder'', framework = None\<rparr>
          [PStr ''out.apk'', PStr ''-u''] (Some [''ANDROID_SDK_DIR'' \<mapsto> ''/sdk'']) True
          (posix_world (\<lambda>_. Exited 0 ''out'' ''err'')))
     = Returns ''/bin/sh apkbuilder out.apk -u''
   \<and> fst (Program_call \<lparr>executable = ''aapt'', framework = None\<rparr>
          [PStr ''package'', PStr ''-f''] None False
          (win32_world (\<lambda>_. Exited 0 ''out'' ''err'')))
     = Returns ''aapt package -f''"
proof -
  let ?w = "posix_world (\<lambda>_. Exited 0 ''out'' ''err'')"
  let ?c = "Program_call \<lparr>executable = ''apkbuilder'', framework = None\<rparr>
              [PStr ''out.apk'', PStr ''-u''] (Some [''ANDROID_SDK_DIR'' \<mapsto> ''/sdk'']) True ?w"
  let ?v = "win32_world (\<lambda>_. Exited 0 ''out'' ''err'')"
  let ?d = "Program_call \<lparr>executable = ''aapt'', framework = None\<rparr>
              [PStr ''package'', PStr ''-f''] None False ?v"
  have strs: "str_items [PStr ''out.apk'', PStr ''-u''] \<noteq> None"
             "str_items [PStr ''package'', PStr ''-f''] \<noteq> None"
    by simp_all
  have callc: "?c = (fst ?c, snd ?c)" by simp
  note instc = Program_call_returns_launched_cmdline [OF callc]
  from instc strs obtain p where p: "popen_calls (snd ?c) = popen_calls ?w @ [p]" by blast
  have runp: "run_child ?w p = Exited 0 ''out'' ''err''" by (simp add: posix_world_def)
  note bodyc = instc [THEN conjunct2, rule_format, OF conjI, OF p runp]
  from bodyc have first: "fst ?c = Returns ''/bin/sh apkbuilder out.apk -u''"
    by (auto simp: Cons_eq_map_conv posix_world_def)
  have calld: "?d = (fst ?d, snd ?d)" by simp
  note instd = Program_call_returns_launched_cmdline [OF calld]
  from instd strs obtain q where q: "popen_calls (snd ?d) = popen_calls ?v @ [q]" by blast
  have runq: "run_child ?v q = Exited 0 ''out'' ''err''" by (simp add: win32_world_def)
  note bodyd = instd [THEN conjunct2, rule_format, OF conjI, OF q runq]
  from bodyd have second: "fst ?d = Returns ''aapt package -f''"
    by (auto simp: Cons_eq_map_conv)
  from first second show ?thesis by simp
qed

text \<open>
  Claim C5 as stated fails in shell-wrapper mode: on a POSIX platform the call with
  \<open>shell=True\<close> returns \<open>/bin/sh apkbuilder out.apk\<close>, not the executable followed by the
  fragments. It also fails for an empty fragment list, where no space follows the
  executable.
\<close>

theorem Program_call_shell_wrapper_cmdline_counterexample:
  "fst (Program_call \<lparr>executable = ''apkbuilder'', framework = None\<rparr> [PStr ''out.apk''] None True
          (posix_world (\<lambda>_. Exited 0 [] [])))
     = Returns ''/bin/sh apkbuilder out.apk''
   \<and> map (run_child (posix_world (\<lambda>_. Exited 0 [] [])))
        (popen_calls (snd (Program_call \<lparr>executable = ''apkbuilder'', framework = None\<rparr>
           [PStr ''out.apk''] None True (posix_world (\<lambda>_. Exited 0 [] [])))))
     = [Exited 0 [] []]
   \<and> ''/bin/sh apkbuilder out.apk'' \<noteq> ''apkbuilder'' @ '' '' @ join '' '' [''out.apk'']
   \<and> fst (Program_call \<lparr>executable = ''ndk-build'', framework = None\<rparr> [] None False
          (posix_world (\<lambda>_. Exited 0 [] [])))
     = Returns ''ndk-build''
   \<and> ''ndk-build'' \<noteq> ''ndk-build'' @ '' '' @ join '' '' []"
  by (simp add: Program_call_unfold posix_world_def)

text \<open>
  Claim C6. With \<open>shell=True\<close> on a platform other than \<open>win32\<close>, \<open>Popen\<close> gets
  \<open>/bin/sh\<close> followed by the unchanged original vector (executable, then fragments) and
  is not asked for a shell. On \<open>win32\<close>, whatever \<open>shell\<close> is, \<open>Popen\<close> is asked for a
  shell and gets the original vector with no \<open>/bin/sh\<close> in front.
\<close>

theorem Program_call_shell_wrapper_argv:
  "(sys_platform w \<noteq> ''win32'' \<longrightarrow>
      popen_calls (snd (Program_call self (map PStr ss) env True w)) =
        popen_calls w @
          [\<lparr>argv = PStr ''/bin/sh'' # (PStr (executable self) # map PStr ss),
            use_shell = False,
            child_env = heap w (os_environ w) ++ or_empty env\<rparr>])
   \<and> (sys_platform w = ''win32'' \<longrightarrow>
      popen_calls (snd (Program_call self (map PStr ss) env shell w)) =
        popen_calls w @
          [\<lparr>argv = PStr (executable self) # map PStr ss,
            use_shell = True,
            child_env = heap w (os_environ w) ++ or_empty env\<rparr>])"
proof (intro conjI impI)
  assume posix: "sys_platform w \<noteq> ''win32''"
  have "str_items (PStr ''/bin/sh'' # PStr (executable self) # map PStr ss)
          = Some (''/bin/sh'' # executable self # ss)"
    by simp
  with posix show "popen_calls (snd (Program_call self (map PStr ss) env True w)) =
        popen_calls w @
          [\<lparr>argv = PStr ''/bin/sh'' # (PStr (executable self) # map PStr ss),
            use_shell = False,
            child_env = heap w (os_environ w) ++ or_empty env\<rparr>]"
    by (simp add: Program_call_unfold Let_def)
next
  assume windows: "sys_platform w = ''win32''"
  have "str_items (PStr (executable self) # map PStr ss) = Some (executable self # ss)"
    by simp
  with windows show "popen_calls (snd (Program_call self (map PStr ss) env shell w)) =
        popen_calls w @
          [\<lparr>argv = PStr (executable self) # map PStr ss,
            use_shell = True,
            child_env = heap w (os_environ w) ++ or_empty env\<rparr>]"
    by (simp add: Program_call_unfold Let_def)
qed

theorem Program_call_shell_wrapper_argv_witness:
  "map argv (popen_calls (snd (Program_call \<lparr>executable = ''apkbuilder'', framework = None\<rparr>
       (map PStr [''out.apk'', ''-u'']) None True (posix_world (\<lambda>_. Exited 0 [] [])))))
     = [[PStr ''/bin/sh'', PStr ''apkbuilder'', PStr ''out.apk'', PStr ''-u'']]
   \<and> map use_shell (popen_calls (snd (Program_call \<lparr>executable = ''apkbuilder'', framework = None\<rparr>
       (map PStr [''out.apk'', ''-u'']) None True (win32_world (\<lambda>_. Exited 0 [] [])))))
     = [True]
   \<and> map argv (popen_calls (snd (Program_call \<lparr>executable = ''apkbuilder'', framework = None\<rparr>
       (map PStr [''out.apk'', ''-u'']) None True (win32_world (\<lambda>_. Exited 0 [] [])))))
     = [[PStr ''apkbuilder'', PStr ''out.apk'', PStr ''-u'']]"
proof -
  have posix: "sys_platform (posix_world (\<lambda>_. Exited 0 [] [])) \<noteq> ''win32''"
    by (simp add: posix_world_def)
  have win: "sys_platform (win32_world (\<lambda>_. Exited 0 [] [])) = ''win32''"
    by (simp add: win32_world_def)
  have none: "popen_calls (posix_world (\<lambda>_. Exited 0 [] [])) = []"
             "popen_calls (win32_world (\<lambda>_. Exited 0 [] [])) = []"
    by (simp_all add: posix_world_def win32_world_def)
  show ?thesis
    using Program_call_shell_wrapper_argv
            [of "posix_world (\<lambda>_. Exited 0 [] [])" "\<lparr>executable = ''apkbuilder'', framework = None\<rparr>"
                "[''out.apk'', ''-u'']" None True]
          Program_call_shell_wrapper_argv
            [of "win32_world (\<lambda>_. Exited 0 [] [])" "\<lparr>executable = ''apkbuilder'', framework = None\<rparr>"
                "[''out.apk'', ''-u'']" None True]
          posix win none
    by simp
qed

text \<open>
  Claim C7. The environment handed to the child is \<open>os.environ\<close> as it is at the call,
  overridden by the overlay where both have a key. The call writes into a copy only:
  \<open>os.environ\<close> is the same object with the same content afterwards, as is every
  dictionary that existed before the call.
\<close>

theorem Program_call_environment_overlay:
  assumes "Program_call self arguments env shell w = (r, w')"
      and "os_environ w < next_free w"
  shows "os_environ w' = os_environ w
       \<and> heap w' (os_environ w') = heap w (os_environ w)
       \<and> (\<forall>a. a < next_free w \<longrightarrow> heap w' a = heap w a)
       \<and> (\<forall>p. popen_calls w' = popen_calls w @ [p] \<longrightarrow>
             child_env p = heap w (os_environ w) ++ or_empty env
             \<and> (\<forall>k. child_env p k =
                    (case or_empty env k of
                       Some v \<Rightarrow> Some v
                     | None \<Rightarrow> heap w (os_environ w) k)))
       \<and> (str_items arguments \<noteq> None \<longrightarrow> (\<exists>p. popen_calls w' = popen_calls w @ [p]))"
proof (cases "str_items ((if shell \<and> sys_platform w \<noteq> ''win32'' then [PStr ''/bin/sh''] else [])
                  @ PStr (executable self) # arguments)")
  case None
  then have "w' = w" "str_items arguments = None"
    using assms(1) by (auto simp: Program_call_unfold Let_def split: if_splits option.splits)
  then show ?thesis by simp
next
  case (Some cs)
  then have w': "w' = w\<lparr>heap := (heap w)(next_free w := heap w (os_environ w) ++ or_empty env),
                    next_free := Suc (next_free w),
                    popen_calls := popen_calls w @
                      [\<lparr>argv = (if shell \<and> sys_platform w \<noteq> ''win32'' then [PStr ''/bin/sh''] else [])
                                 @ PStr (executable self) # arguments,
                        use_shell = (sys_platform w = ''win32''),
                        child_env = heap w (os_environ w) ++ or_empty env\<rparr>]\<rparr>"
    using assms(1) by (auto simp: Program_call_unfold Let_def)
  show ?thesis
    unfolding w' using assms(2) by (auto simp: map_add_def split: option.splits)
qed

theorem Program_call_environment_overlay_witness:
  "map (\<lambda>p. (child_env p ''ANDROID_SDK_DIR'', child_env p ''PATH''))
     (popen_calls (snd (Program_call \<lparr>executable = ''apkbuilder'', framework = None\<rparr>
            [PStr ''out.apk''] (Some [''ANDROID_SDK_DIR'' \<mapsto> ''/sdk'']) True
            (posix_world (\<lambda>_. Exited 0 [] [])))))
     = [(Some ''/sdk'', Some ''/usr/bin'')]
   \<and> heap (snd (Program_call \<lparr>executable = ''apkbuilder'', framework = None\<rparr>
            [PStr ''out.apk''] (Some [''ANDROID_SDK_DIR'' \<mapsto> ''/sdk'']) True
            (posix_world (\<lambda>_. Exited 0 [] [])))) 0 ''ANDROID_SDK_DIR'' = Some ''/old''"
proof -
  let ?w = "posix_world (\<lambda>_. Exited 0 [] [])"
  let ?c = "Program_call \<lparr>executable = ''apkbuilder'', framework = None\<rparr>
            [PStr ''out.apk''] (Some [''ANDROID_SDK_DIR'' \<mapsto> ''/sdk'']) True ?w"
  have call: "?c = (fst ?c, snd ?c)" by simp
  have alloc: "os_environ ?w < next_free ?w" by (simp add: posix_world_def)
  note inst = Program_call_environment_overlay [OF call alloc]
  have "str_items [PStr ''out.apk''] \<noteq> None" by simp
  with inst obtain p where p: "popen_calls (snd ?c) = popen_calls ?w @ [p]" by blast
  from inst p have "child_env p = heap ?w (os_environ ?w) ++ or_empty (Some [''ANDROID_SDK_DIR'' \<mapsto> ''/sdk''])"
    by blast
  then have overlay: "child_env p ''ANDROID_SDK_DIR'' = Some ''/sdk''" "child_env p ''PATH'' = Some ''/usr/bin''"
    by (simp_all add: posix_world_def or_empty_def)
  from inst have "heap (snd ?c) (os_environ (snd ?c)) = heap ?w (os_environ ?w)"
      and "os_environ (snd ?c) = os_environ ?w"
    by blast+
  then have ambient: "heap (snd ?c) 0 ''ANDROID_SDK_DIR'' = Some ''/old''"
    by (simp add: posix_world_def)
  have "popen_calls ?w = []" by (simp add: posix_world_def)
  with p overlay ambient show ?thesis by simp
qed

section \<open>The adapters\<close>

lemma Program_call_framework [simp]:
  "Program_call (self\<lparr>framework := fw\<rparr>) arguments env shell w = Program_call self arguments env shell w"
  by (simp add: Program_call_def)

text \<open>
  Claim C10. On a program built with the default \<open>framework=None\<close>, every call of
  \<open>ApkBuilder\<close> raises the attribute error and leaves the world as it was: no \<open>Popen\<close>
  call is made. With a framework, the call goes on to \<open>Program.__call__\<close> with the
  overlay \<open>ANDROID_SDK_DIR\<close> taken from \<open>sdk_dir\<close> and \<open>shell=True\<close>. No other adapter
  reads the framework, nor does \<open>Program.__call__\<close>: replacing it changes nothing of
  what they do.
\<close>

theorem ApkBuilder_needs_framework:
  "ApkBuilder_call (Program_init exe None) outputfile dex zips source_dirs jar_paths native_dirs w
     = (Raises AttributeError, w)
   \<and> (framework self = None \<longrightarrow>
        ApkBuilder_call self outputfile dex zips source_dirs jar_paths native_dirs w
          = (Raises AttributeError, w))
   \<and> (\<forall>fw. framework self = Some fw \<longrightarrow>
        ApkBuilder_call self outputfile dex zips source_dirs jar_paths native_dirs w
          = Program_call self
              (ApkBuilder_args outputfile dex zips source_dirs jar_paths native_dirs)
              (Some [''ANDROID_SDK_DIR'' \<mapsto> sdk_dir fw]) True w)
   \<and> Program_call (self\<lparr>framework := fw'\<rparr>) arguments env shell w
        = Program_call self arguments env shell w
   \<and> Aapt_call (self\<lparr>framework := fw'\<rparr>) command manifest resource_dir asset_dir include
          apk_output r_output configurations rename_manifest_package overwrite_version_code
          overwrite_version_name make_dirs overwrite extra_args w
        = Aapt_call self command manifest resource_dir asset_dir include
          apk_output r_output configurations rename_manifest_package overwrite_version_code
          overwrite_version_name make_dirs overwrite extra_args w
   \<and> Aidl_call (self\<lparr>framework := fw'\<rparr>) aidl_file preprocessed search_path output_folder w
        = Aidl_call self aidl_file preprocessed search_path output_folder w
   \<and> LlvmRs_call (self\<lparr>framework := fw'\<rparr>) rs_resource_dir resource_gen_dir source_files include_dirs w
        = LlvmRs_call self rs_resource_dir resource_gen_dir source_files include_dirs w
   \<and> NdkBuild_call (self\<lparr>framework := fw'\<rparr>) project_path w = NdkBuild_call self project_path w
   \<and> NdkClean_call (self\<lparr>framework := fw'\<rparr>) project_path w = NdkClean_call self project_path w
   \<and> JavaC_call (self\<lparr>framework := fw'\<rparr>) files destdir encoding target classpath bootclasspath debug w
        = JavaC_call self files destdir encoding target classpath bootclasspath debug w
   \<and> Dx_call (self\<lparr>framework := fw'\<rparr>) files output w = Dx_call self files output w
   \<and> JarSigner_call (self\<lparr>framework := fw'\<rparr>) jarfile keystore alias password w
        = JarSigner_call self jarfile keystore alias password w
   \<and> ZipAlign_call (self\<lparr>framework := fw'\<rparr>) infile outfile align force w
        = ZipAlign_call self infile outfile align force w"
  by (simp add: ApkBuilder_call_def Program_init_def Aapt_call_def Aidl_call_def LlvmRs_call_def
        NdkBuild_call_def NdkClean_call_def JavaC_call_def Dx_call_def JarSigner_call_def
        ZipAlign_call_def Let_def split: sum.splits)

theorem ApkBuilder_needs_framework_witness:
  "ApkBuilder_call (Program_init ''apkbuilder'' None) (PStr ''out.apk'') (PStr ''classes.dex'')
       [] [] [] [] (posix_world (\<lambda>_. Exited 0 [] []))
     = (Raises AttributeError, posix_world (\<lambda>_. Exited 0 [] []))
   \<and> fst (ApkBuilder_call (Program_init ''apkbuilder'' (Some \<lparr>sdk_dir = ''/sdk''\<rparr>))
       (PStr ''out.apk'') (PStr ''classes.dex'') [] [] [] [] (posix_world (\<lambda>_. Exited 0 [] [])))
     = Returns ''/bin/sh apkbuilder out.apk -u -f classes.dex''"
proof -
  have fw: "framework (Program_init ''apkbuilder'' (Some \<lparr>sdk_dir = ''/sdk''\<rparr>)) = Some \<lparr>sdk_dir = ''/sdk''\<rparr>"
    by (simp add: Program_init_def)
  show ?thesis
    using ApkBuilder_needs_framework
            [of "''apkbuilder''" "PStr ''out.apk''" "PStr ''classes.dex''" "[]" "[]" "[]" "[]"
                "posix_world (\<lambda>_. Exited 0 [] [])"
                "Program_init ''apkbuilder'' (Some \<lparr>sdk_dir = ''/sdk''\<rparr>)"]
          fw
    by (simp add: Program_call_unfold ApkBuilder_args_def extend_args_def Let_def
          posix_world_def Program_init_def)
qed

text \<open>
  Claim C4 fails on \<open>Dx\<close>: \<open>"--output=%s" % output\<close> is formatted before
  \<open>extend_args\<close> looks for \<open>None\<close>, so a call without \<open>output\<close> emits the fragment
  \<open>--output=None\<close> between \<open>--dex\<close> and the files.
\<close>

theorem Dx_without_output_emits_output_None:
  "Dx_args files PNone = PStr ''--dex'' # PStr ''--output=None'' # files
   \<and> Dx_args [PStr ''classes''] PNone = [PStr ''--dex'', PStr ''--output=None'', PStr ''classes'']
   \<and> Dx_args [PStr ''classes''] PNone \<noteq> [PStr ''--dex'', PStr ''classes'']"
  by (simp add: Dx_args_def extend_args_def)

text \<open>
  Argument lists only grow at the end, so every list an adapter builds is the
  concatenation of its groups.
\<close>

lemma extend_args_append:
  "extend_args args new c = args @ (if PNone \<notin> set new \<and> c then new else [])"
  by (simp add: extend_args_def)

lemma foldl_extend_args_append:
  "foldl (\<lambda>args item. extend_args args [f, item] True) args xs =
     args @ concat (map (\<lambda>item. if f = PNone \<or> item = PNone then [] else [f, item]) xs)"
  by (induction xs arbitrary: args) (auto simp: extend_args_def)

lemma in_set_extend_args:
  "x \<in> set (extend_args args new c) \<Longrightarrow> x \<in> set args \<or> x \<in> set new"
  by (auto simp: extend_args_def split: if_splits)

lemma in_set_foldl_extend_args:
  "x \<in> set (foldl (\<lambda>args item. extend_args args [f, item] True) args xs) \<Longrightarrow>
     x \<in> set args \<or> x = f \<or> x \<in> set xs"
  by (auto simp: foldl_extend_args_append split: if_splits)

text \<open>
  \<open>"%s" % v\<close> begins with two dashes only when \<open>v\<close> is that very string: the text of
  an integer holds at most a leading minus sign.
\<close>

lemma digit_not_minus: "n < 10 \<Longrightarrow> char_of (48 + n) \<noteq> CHR ''-''" for n :: nat
proof
  assume "n < 10" and "char_of (48 + n) = CHR ''-''"
  then have "of_char (char_of (48 + n) :: char) = (of_char CHR ''-'' :: nat)" by simp
  with \<open>n < 10\<close> show False by simp
qed

lemma digits10_no_minus: "CHR ''-'' \<notin> set (digits10 n)"
proof (induction n rule: digits10.induct)
  case (1 n)
  show ?case
  proof (cases "n < 10")
    case True
    then show ?thesis
      using digit_not_minus [of n] by (subst digits10.simps) auto
  next
    case False
    then show ?thesis
      using 1 digit_not_minus [of "n mod 10"] by (subst digits10.simps) auto
  qed
qed

lemma py_str_flag:
  assumes "py_str v = CHR ''-'' # CHR ''-'' # rest"
  shows "v = PStr (CHR ''-'' # CHR ''-'' # rest)"
proof (cases v)
  case (PInt i)
  with assms have "CHR ''-'' \<in> set (digits10 (nat (- i)))"
    using digits10_no_minus [of "nat i"]
    by (cases "i < 0") (auto simp: str_int_def)
  with digits10_no_minus show ?thesis by blast
qed (use assms in \<open>auto split: if_splits\<close>)


text \<open>
  The class path group of \<open>JavaC\<close>: for a non-empty class path of strings the adapter
  emits the flag \<open>-classpath\<close> followed by one value, the elements joined with a colon,
  after the \<open>-d\<close> group and before the \<open>-bootclasspath\<close> group. The platform plays no
  part in it.
\<close>

lemma JavaC_args_classpath:
  assumes "cp \<noteq> []"
  shows "JavaC_args files destdir encoding target (map PStr cp) bootclasspath debug =
           Inr (extend_args [] [PStr ''-encoding'', encoding] True
                @ extend_args [] [PStr ''-target'', target] True
                @ extend_args [] [PStr ''-source'', target] True
                @ extend_args [] [PStr ''-d'', destdir] True
                @ [PStr ''-classpath'', PStr (join '':'' cp)]
                @ extend_args [] [PStr ''-bootclasspath'', bootclasspath] True
                @ [if truthy debug then PStr ''-g'' else PStr ''-g:none'']
                @ files)"
  using assms by (simp add: JavaC_args_def Let_def py_join_def extend_args_append)

text \<open>
  Claim C8 fails on Windows. \<open>":".join(classpath)\<close> joins with a fixed colon, though the
  module runs on \<open>win32\<close> (it tells that platform apart when it starts the child). There
  the platform's path separator is \<open>;\<close>, and \<open>javac\<close> is started with the class path
  \<open>C:/a:C:/b\<close> where the claim asks for \<open>C:/a;C:/b\<close>.
\<close>

theorem JavaC_classpath_colon_on_win32:
  "map argv (popen_calls (snd
       (JavaC_call \<lparr>executable = ''javac'', framework = None\<rparr> [PStr ''A.java''] PNone PNone PNone
          [PStr ''C:/a'', PStr ''C:/b''] PNone PNone (win32_world (\<lambda>_. Exited 0 [] [])))))
     = [[PStr ''javac'', PStr ''-classpath'', PStr ''C:/a:C:/b'', PStr ''-g:none'', PStr ''A.java'']]
   \<and> join (platform_path_separator (sys_platform (win32_world (\<lambda>_. Exited 0 [] []))))
         [''C:/a'', ''C:/b''] = ''C:/a;C:/b''
   \<and> ''C:/a:C:/b'' \<noteq> ''C:/a;C:/b''"
proof -
  have built: "JavaC_args [PStr ''A.java''] PNone PNone PNone [PStr ''C:/a'', PStr ''C:/b''] PNone PNone
                 = Inr [PStr ''-classpath'', PStr ''C:/a:C:/b'', PStr ''-g:none'', PStr ''A.java'']"
    by (simp add: JavaC_args_def Let_def py_join_def extend_args_def)
  have launched: "map argv (popen_calls (snd
       (JavaC_call \<lparr>executable = ''javac'', framework = None\<rparr> [PStr ''A.java''] PNone PNone PNone
          [PStr ''C:/a'', PStr ''C:/b''] PNone PNone (win32_world (\<lambda>_. Exited 0 [] [])))))
     = [[PStr ''javac'', PStr ''-classpath'', PStr ''C:/a:C:/b'', PStr ''-g:none'', PStr ''A.java'']]"
    unfolding JavaC_call_def built
    by (simp add: Program_call_unfold win32_world_def)
  have wanted: "join (platform_path_separator (sys_platform (win32_world (\<lambda>_. Exited 0 [] []))))
         [''C:/a'', ''C:/b''] = ''C:/a;C:/b''"
    by (simp add: platform_path_separator_def win32_world_def)
  from launched wanted show ?thesis by simp
qed

text \<open>
  Claim C9, as amended. When \<open>overwrite_version_name\<close> is not \<open>None\<close>, the argument list
  of \<open>Aapt\<close> holds \<open>--version-code\<close> immediately followed by that value. The adapter has
  no flag \<open>--version-name\<close> of its own: the token is in the list only if the caller
  passed it as a value (the command, a parameter, an included package or an extra
  argument).
\<close>

theorem Aapt_version_name_emitted_as_version_code:
  "(overwrite_version_name \<noteq> PNone \<longrightarrow>
      (\<exists>before after.
         Aapt_args command manifest resource_dir asset_dir include apk_output r_output
           configurations rename_manifest_package overwrite_version_code
           overwrite_version_name make_dirs overwrite extra_args
         = before @ [PStr ''--version-code'', overwrite_version_name] @ after))
   \<and> (PStr ''--version-name'' \<notin>
         {command, manifest, resource_dir, asset_dir, apk_output, r_output, configurations,
          rename_manifest_package, overwrite_version_code, overwrite_version_name}
         \<union> set include \<union> set extra_args \<longrightarrow>
       PStr ''--version-name'' \<notin> set
         (Aapt_args command manifest resource_dir asset_dir include apk_output r_output
            configurations rename_manifest_package overwrite_version_code
            overwrite_version_name make_dirs overwrite extra_args))"
proof (intro conjI impI)
  assume supplied: "overwrite_version_name \<noteq> PNone"
  let ?before = "extend_args (extend_args (extend_args (extend_args (extend_args [command]
                   [PStr ''-m''] (truthy make_dirs)) [PStr ''-M'', manifest] True)
                   [PStr ''-S'', resource_dir] True) [PStr ''-A'', asset_dir] True)
                   [PStr ''-c'', configurations] True"
  let ?before' = "if truthy overwrite_version_code
                  then extend_args ?before
                         [PStr ''--version-code'', PStr (py_str overwrite_version_code)] True
                  else ?before"
  let ?after = "(if PNone \<notin> set [PStr ''--rename-manifest-package'', rename_manifest_package] \<and> True
                 then [PStr ''--rename-manifest-package'', rename_manifest_package] else [])
                @ concat (map (\<lambda>item. if PStr ''-I'' = PNone \<or> item = PNone then []
                                       else [PStr ''-I'', item]) include)
                @ (if PNone \<notin> set [PStr ''-F'', apk_output] \<and> True then [PStr ''-F'', apk_output] else [])
                @ (if PNone \<notin> set [PStr ''-J'', r_output] \<and> True then [PStr ''-J'', r_output] else [])
                @ (if PNone \<notin> set [PStr ''-f''] \<and> truthy overwrite then [PStr ''-f''] else [])
                @ (if PNone \<notin> set extra_args \<and> True then extra_args else [])"
  have group: "extend_args ?before' [PStr ''--version-code'', overwrite_version_name] True
                 = ?before' @ [PStr ''--version-code'', overwrite_version_name]"
    using supplied by (simp add: extend_args_def)
  have "Aapt_args command manifest resource_dir asset_dir include apk_output r_output
           configurations rename_manifest_package overwrite_version_code
           overwrite_version_name make_dirs overwrite extra_args
         = ?before' @ [PStr ''--version-code'', overwrite_version_name] @ ?after"
    unfolding Aapt_args_def Let_def group
    by (simp only: extend_args_append [of "_ @ _"] extend_args_append [of "foldl _ _ _"]
          foldl_extend_args_append append_assoc)
  then show "\<exists>before after.
         Aapt_args command manifest resource_dir asset_dir include apk_output r_output
           configurations rename_manifest_package overwrite_version_code
           overwrite_version_name make_dirs overwrite extra_args
         = before @ [PStr ''--version-code'', overwrite_version_name] @ after"
    by blast
next
  assume caller: "PStr ''--version-name'' \<notin>
         {command, manifest, resource_dir, asset_dir, apk_output, r_output, configurations,
          rename_manifest_package, overwrite_version_code, overwrite_version_name}
         \<union> set include \<union> set extra_args"
  show "PStr ''--version-name'' \<notin> set
         (Aapt_args command manifest resource_dir asset_dir include apk_output r_output
            configurations rename_manifest_package overwrite_version_code
            overwrite_version_name make_dirs overwrite extra_args)"
  proof
    assume "PStr ''--version-name'' \<in> set
         (Aapt_args command manifest resource_dir asset_dir include apk_output r_output
            configurations rename_manifest_package overwrite_version_code
            overwrite_version_name make_dirs overwrite extra_args)"
    then have "PStr ''--version-name'' \<in>
         {command, manifest, resource_dir, asset_dir, apk_output, r_output, configurations,
          rename_manifest_package, overwrite_version_code, overwrite_version_name}
         \<union> set include \<union> set extra_args"
      unfolding Aapt_args_def Let_def
      by (auto dest!: in_set_extend_args in_set_foldl_extend_args py_str_flag [OF sym]
            split: if_splits)
    with caller show False by blast
  qed
qed

theorem Aapt_version_name_emitted_as_version_code_witness:
  "Aapt_args (PStr ''package'') PNone PNone PNone [] PNone PNone PNone PNone PNone
      (PStr ''1.0'') PNone PNone []
     = [] @ [PStr ''package'', PStr ''--version-code'', PStr ''1.0''] @ []
   \<and> PStr ''--version-name'' \<notin> set
       (Aapt_args (PStr ''package'') PNone PNone PNone [] PNone PNone PNone PNone PNone
          (PStr ''1.0'') PNone PNone [])"
proof -
  note inst = Aapt_version_name_emitted_as_version_code
                [of "PStr ''1.0''" "PStr ''package''" PNone PNone PNone "[]" PNone PNone PNone
                    PNone PNone PNone PNone "[]"]
  have given: "PStr ''--version-name'' \<notin>
         {PStr ''package'', PNone, PNone, PNone, PNone, PNone, PNone, PNone, PNone, PStr ''1.0''}
         \<union> set [] \<union> set []"
    by simp
  from inst given have absent: "PStr ''--version-name'' \<notin> set
       (Aapt_args (PStr ''package'') PNone PNone PNone [] PNone PNone PNone PNone PNone
          (PStr ''1.0'') PNone PNone [])"
    by blast
  have "Aapt_args (PStr ''package'') PNone PNone PNone [] PNone PNone PNone PNone PNone
      (PStr ''1.0'') PNone PNone []
     = [PStr ''package'', PStr ''--version-code'', PStr ''1.0'']"
    by (simp add: Aapt_args_def extend_args_def)
  with absent show ?thesis by simp
qed

text \<open>
  Claim C9 as stated fails for "any combination of inputs": extra arguments are passed
  through, so a caller who supplies \<open>--version-name\<close> there gets it in the list.
\<close>

theorem Aapt_version_name_passthrough_counterexample:
  "Aapt_args (PStr ''package'') PNone PNone PNone [] PNone PNone PNone PNone PNone
      (PStr ''1.0'') PNone PNone [PStr ''--version-name'', PStr ''1.0'']
     = [PStr ''package'', PStr ''--version-code'', PStr ''1.0'',
        PStr ''--version-name'', PStr ''1.0'']
   \<and> PStr ''--version-name'' \<in> set
       (Aapt_args (PStr ''package'') PNone PNone PNone [] PNone PNone PNone PNone PNone
          (PStr ''1.0'') PNone PNone [PStr ''--version-name'', PStr ''1.0''])"
  by (simp add: Aapt_args_def extend_args_def)

text \<open>
  The other adapters with optional parameters emit their fixed tokens only when none is
  supplied.
\<close>

lemma adapters_without_optional_parameters:
  "Aapt_args command PNone PNone PNone [] PNone PNone PNone PNone PNone PNone PNone PNone []
     = [command]"
  "Aidl_args (PStr aidl_file) PNone PNone PNone = [PStr aidl_file]"
  "JavaC_args files PNone PNone PNone [] PNone PNone = Inr (PStr ''-g:none'' # files)"
  "ApkBuilder_args outputfile PNone [] [] [] [] = [outputfile, PStr ''-u'']"
  "ZipAlign_args infile outfile align PNone = [PStr (py_str align), infile, outfile]"
  by (simp_all add: Aapt_args_def Aidl_args_def JavaC_args_def ApkBuilder_args_def
        ZipAlign_args_def extend_args_def py_join_def)

end
